theory Spec2Isabelle
  imports Complex_Main "HOL-Library.Sublist"
begin

section \<open>Data model (services/incidentManager.ts)\<close>

text \<open>
  The TypeScript string-literal unions become datatypes. A \<open>Date\<close> is the number of
  milliseconds since the epoch (\<open>getTime()\<close>), an \<open>int\<close>. An optional field
  (\<open>f?: T\<close>) is a \<open>T option\<close>, \<open>None\<close> standing for \<open>undefined\<close>. The payload
  of type \<open>any\<close> (the original alert body) is kept as an opaque serialised string.
  Fields whose names occur in several interfaces, or are names of the logic, carry a
  suffix: \<open>_e\<close> for \<open>IncidentEvent\<close>, \<open>_r\<close> for \<open>CreateIncidentRequest\<close>,
  \<open>_i\<close> for the \<open>id\<close> of \<open>Incident\<close>, \<open>_m\<close> and \<open>_n\<close> for the snapshot of
  the metrics, \<open>_g\<close> for a gauge.
\<close>

datatype Severity = P0 | P1 | P2 | P3

datatype Status = Open | Investigating | Resolved | Closed

datatype Source = Manual | Webhook | Monitoring

datatype EventType = EvCreated | EvAssigned | EvStatusChanged | EvComment | EvResolved | EvClosed

type_synonym Date = int

type_synonym payload = string

text \<open>The object literals stored in \<open>IncidentEvent.metadata\<close>.\<close>

datatype EventMetadata =
    SeverityMeta Severity
  | AssigneeMeta "string option" string
  | StatusMeta Status Status

record IncidentEvent =
  id_e :: string
  incidentId :: string
  type_e :: EventType
  message :: string
  userId :: "string option"
  timestamp :: Date
  metadata_e :: "EventMetadata option"

record Incident =
  id_i :: string
  title :: string
  description :: "string option"
  severity :: Severity
  status :: Status
  assignee :: "string option"
  channelId :: "string option"
  createdAt :: Date
  updatedAt :: Date
  resolvedAt :: "Date option"
  closedAt :: "Date option"
  source :: Source
  timeline :: "IncidentEvent list"
  tags :: "string list"
  metadata :: "payload option"

record CreateIncidentRequest =
  title_r :: string
  description_r :: "string option"
  severity_r :: Severity
  assignee_r :: "string option"
  source_r :: "Source option"
  tags_r :: "string list option"
  metadata_r :: "payload option"

datatype RotationType = RotPrimary | RotSecondary | RotEscalation

record RotationSchedule =
  startDate :: Date
  endDate :: Date
  userId_rot :: string
  type_rot :: RotationType

record OnCallSchedule =
  teamId :: string
  teamName :: string
  primary :: string
  secondary :: "string option"
  escalation :: "string list"
  timezone :: string
  rotations :: "RotationSchedule list"

subsection \<open>The JavaScript \<open>Map\<close>\<close>

text \<open>
  A \<open>Map\<close> iterates in insertion order, and \<open>set\<close> on a key that is already present
  replaces the value where it stands. It is an association list with these two
  operations.
\<close>

definition Map_get :: "('k \<times> 'v) list \<Rightarrow> 'k \<Rightarrow> 'v option" where
  "Map_get m k = map_of m k"

fun Map_set :: "('k \<times> 'v) list \<Rightarrow> 'k \<Rightarrow> 'v \<Rightarrow> ('k \<times> 'v) list" where
  "Map_set [] k v = [(k, v)]"
| "Map_set ((k', v') # m) k v =
     (if k' = k then (k, v) # m else (k', v') # Map_set m k v)"

definition Map_values :: "('k \<times> 'v) list \<Rightarrow> 'v list" where
  "Map_values m = map snd m"

subsection \<open>The store\<close>

record IncidentManager =
  incidents :: "(string \<times> Incident) list"
  incidentEvents :: "(string \<times> IncidentEvent list) list"
  onCallSchedules :: "(string \<times> OnCallSchedule) list"

definition defaultSchedule :: OnCallSchedule where
  "defaultSchedule =
     \<lparr> teamId = ''default'', teamName = ''Engineering'', primary = ''U123456789'',
       secondary = Some ''U987654321'', escalation = [''U555666777'', ''U888999000''],
       timezone = ''UTC'', rotations = [] \<rparr>"

text \<open>The constructor: two empty maps and the default on-call schedule.\<close>

definition new_IncidentManager :: IncidentManager where
  "new_IncidentManager =
     \<lparr> incidents = [], incidentEvents = [],
       onCallSchedules = Map_set [] ''default'' defaultSchedule \<rparr>"

fun statusString :: "Status \<Rightarrow> string" where
  "statusString Open = ''open''"
| "statusString Investigating = ''investigating''"
| "statusString Resolved = ''resolved''"
| "statusString Closed = ''closed''"

section \<open>Operations of the store\<close>

text \<open>
  What an operation reads from its environment is an argument of the model: the
  identifiers returned by \<open>generateIncidentId\<close> and \<open>generateEventId\<close> (built from
  \<open>Date.now()\<close> and \<open>Math.random()\<close>), and one argument for each \<open>new Date()\<close>,
  in the order of the calls. The result is the returned value and the store after
  the call; \<open>console.log\<close> is left out.
\<close>

text \<open>
  The four object literals that the operations append to a timeline, each with the
  values its literal reads.
\<close>

definition creationEvent :: "string \<Rightarrow> string \<Rightarrow> Incident \<Rightarrow> Date \<Rightarrow> IncidentEvent" where
  "creationEvent eventId ident incident now =
     \<lparr> id_e = eventId,
       incidentId = ident,
       type_e = EvCreated,
       message = ''Incident created: '' @ title incident,
       userId = None,
       timestamp = now,
       metadata_e = Some (SeverityMeta (severity incident)) \<rparr>"

text \<open>
  In \<open>oldAssignee ? a : b\<close> an absent and an empty assignee both take the second
  branch.
\<close>

definition assignmentEvent ::
  "string \<Rightarrow> string \<Rightarrow> string option \<Rightarrow> string \<Rightarrow> Date \<Rightarrow> IncidentEvent" where
  "assignmentEvent eventId ident oldAssignee newAssignee tEvent =
     \<lparr> id_e = eventId,
       incidentId = ident,
       type_e = EvAssigned,
       message =
         (case oldAssignee of
            None \<Rightarrow> ''Incident assigned to '' @ newAssignee
          | Some old \<Rightarrow>
              if old \<noteq> []
              then ''Incident reassigned from '' @ old @ '' to '' @ newAssignee
              else ''Incident assigned to '' @ newAssignee),
       userId = None,
       timestamp = tEvent,
       metadata_e = Some (AssigneeMeta oldAssignee newAssignee) \<rparr>"

definition statusEvent ::
  "string \<Rightarrow> string \<Rightarrow> Status \<Rightarrow> Status \<Rightarrow> string option \<Rightarrow> Date \<Rightarrow> IncidentEvent" where
  "statusEvent eventId ident oldStatus newStatus user tEvent =
     \<lparr> id_e = eventId,
       incidentId = ident,
       type_e = EvStatusChanged,
       message =
         ''Status changed from '' @ statusString oldStatus @ '' to '' @ statusString newStatus,
       userId = user,
       timestamp = tEvent,
       metadata_e = Some (StatusMeta oldStatus newStatus) \<rparr>"

definition commentEvent :: "string \<Rightarrow> string \<Rightarrow> string \<Rightarrow> string \<Rightarrow> Date \<Rightarrow> IncidentEvent" where
  "commentEvent eventId ident msg user tEvent =
     \<lparr> id_e = eventId,
       incidentId = ident,
       type_e = EvComment,
       message = msg,
       userId = Some user,
       timestamp = tEvent,
       metadata_e = None \<rparr>"

definition createIncident ::
  "IncidentManager \<Rightarrow> CreateIncidentRequest \<Rightarrow> string \<Rightarrow> string \<Rightarrow> Date
     \<Rightarrow> Incident \<times> IncidentManager" where
  "createIncident s request newId eventId now =
     (let incident =
            \<lparr> id_i = newId,
              title = title_r request,
              description = description_r request,
              severity = severity_r request,
              status = Open,
              assignee = assignee_r request,
              channelId = None,
              createdAt = now,
              updatedAt = now,
              resolvedAt = None,
              closedAt = None,
              source = (case source_r request of None \<Rightarrow> Manual | Some src \<Rightarrow> src),
              timeline = [],
              tags = (case tags_r request of None \<Rightarrow> [] | Some ts \<Rightarrow> ts),
              metadata = metadata_r request \<rparr>;
          event = creationEvent eventId newId incident now;
          incident = incident\<lparr>timeline := timeline incident @ [event]\<rparr>
      in (incident, s\<lparr>incidents := Map_set (incidents s) newId incident\<rparr>))"

definition getIncident :: "IncidentManager \<Rightarrow> string \<Rightarrow> Incident option" where
  "getIncident s ident = Map_get (incidents s) ident"

definition getAllIncidents :: "IncidentManager \<Rightarrow> Incident list" where
  "getAllIncidents s = Map_values (incidents s)"

definition getOpenIncidents :: "IncidentManager \<Rightarrow> Incident list" where
  "getOpenIncidents s =
     filter (\<lambda>incident. status incident = Open \<or> status incident = Investigating)
       (getAllIncidents s)"

text \<open>
  The three mutating operations change the incident object held by the map; the model
  writes the changed record back under the key it was found at.
\<close>

definition assignIncident ::
  "IncidentManager \<Rightarrow> string \<Rightarrow> string \<Rightarrow> Date \<Rightarrow> string \<Rightarrow> Date
     \<Rightarrow> bool \<times> IncidentManager" where
  "assignIncident s ident newAssignee tUpdated eventId tEvent =
     (case Map_get (incidents s) ident of
        None \<Rightarrow> (False, s)
      | Some incident \<Rightarrow>
          (let oldAssignee = assignee incident;
               incident = incident\<lparr>assignee := Some newAssignee\<rparr>;
               incident = incident\<lparr>updatedAt := tUpdated\<rparr>;
               event = assignmentEvent eventId ident oldAssignee newAssignee tEvent;
               incident = incident\<lparr>timeline := timeline incident @ [event]\<rparr>
           in (True, s\<lparr>incidents := Map_set (incidents s) ident incident\<rparr>)))"

definition updateIncidentStatus ::
  "IncidentManager \<Rightarrow> string \<Rightarrow> Status \<Rightarrow> string option \<Rightarrow> Date \<Rightarrow> Date \<Rightarrow> string \<Rightarrow> Date
     \<Rightarrow> bool \<times> IncidentManager" where
  "updateIncidentStatus s ident newStatus user tUpdated tStamp eventId tEvent =
     (case Map_get (incidents s) ident of
        None \<Rightarrow> (False, s)
      | Some incident \<Rightarrow>
          (let oldStatus = status incident;
               incident = incident\<lparr>status := newStatus\<rparr>;
               incident = incident\<lparr>updatedAt := tUpdated\<rparr>;
               incident =
                 (if newStatus = Resolved then incident\<lparr>resolvedAt := Some tStamp\<rparr>
                  else if newStatus = Closed then incident\<lparr>closedAt := Some tStamp\<rparr>
                  else incident);
               event = statusEvent eventId ident oldStatus newStatus user tEvent;
               incident = incident\<lparr>timeline := timeline incident @ [event]\<rparr>
           in (True, s\<lparr>incidents := Map_set (incidents s) ident incident\<rparr>)))"

definition addIncidentComment ::
  "IncidentManager \<Rightarrow> string \<Rightarrow> string \<Rightarrow> string \<Rightarrow> string \<Rightarrow> Date \<Rightarrow> Date
     \<Rightarrow> bool \<times> IncidentManager" where
  "addIncidentComment s ident msg user eventId tEvent tUpdated =
     (case Map_get (incidents s) ident of
        None \<Rightarrow> (False, s)
      | Some incident \<Rightarrow>
          (let event = commentEvent eventId ident msg user tEvent;
               incident = incident\<lparr>timeline := timeline incident @ [event]\<rparr>;
               incident = incident\<lparr>updatedAt := tUpdated\<rparr>
           in (True, s\<lparr>incidents := Map_set (incidents s) ident incident\<rparr>)))"

section \<open>Aggregate snapshot (getIncidentMetrics)\<close>

text \<open>
  A JavaScript number is a double. The counts and the sums of millisecond differences
  are integers and are computed as such; the two divisions of the average are exact
  divisions of rationals in the model, where the source rounds to a double.
\<close>

record BySeverity =
  P0_n :: nat
  P1_n :: nat
  P2_n :: nat
  P3_n :: nat

record IncidentMetrics =
  total_m :: nat
  open_m :: nat
  investigating_m :: nat
  resolved_m :: nat
  closed_m :: nat
  bySeverity_m :: BySeverity
  avgResolutionTime_m :: rat

text \<open>The callback of both \<open>reduce\<close> calls: add the resolution time in milliseconds.\<close>

definition addResolutionTime :: "int \<Rightarrow> Incident \<Rightarrow> int" where
  "addResolutionTime acc incident =
     (case resolvedAt incident of
        Some r \<Rightarrow> acc + (r - createdAt incident)
      | None \<Rightarrow> acc)"

definition getIncidentMetrics :: "IncidentManager \<Rightarrow> IncidentMetrics" where
  "getIncidentMetrics s =
     (let incidents = getAllIncidents s;
          resolved = filter (\<lambda>i. resolvedAt i \<noteq> None) incidents;
          avgResolutionTime =
            (if length resolved > 0
             then of_int (foldl addResolutionTime 0 resolved) / of_nat (length resolved)
                    / (1000 * 60)
             else 0)
      in \<lparr> total_m = length incidents,
           open_m = length (filter (\<lambda>i. status i = Open) incidents),
           investigating_m = length (filter (\<lambda>i. status i = Investigating) incidents),
           resolved_m = length (filter (\<lambda>i. status i = Resolved) incidents),
           closed_m = length (filter (\<lambda>i. status i = Closed) incidents),
           bySeverity_m =
             \<lparr> P0_n = length (filter (\<lambda>i. severity i = P0) incidents),
               P1_n = length (filter (\<lambda>i. severity i = P1) incidents),
               P2_n = length (filter (\<lambda>i. severity i = P2) incidents),
               P3_n = length (filter (\<lambda>i. severity i = P3) incidents) \<rparr>,
           avgResolutionTime_m = avgResolutionTime \<rparr>)"

section \<open>Metrics collector (services/metricsCollector.ts)\<close>

text \<open>
  A gauge of the metrics library holds one number for each label value; \<open>set\<close>
  stores the number under the label. Only the three gauges fed from the store are
  modelled.
\<close>

type_synonym Gauge = "(string \<times> nat) list"

record MetricsCollector =
  incidentsByStatus :: Gauge
  incidentsBySeverity :: Gauge
  activeIncidents_g :: Gauge

definition updateIncidentStatusMetrics ::
  "MetricsCollector \<Rightarrow> IncidentManager \<Rightarrow> MetricsCollector" where
  "updateIncidentStatusMetrics c incidentManager =
     (let metrics = getIncidentMetrics incidentManager;
          g = incidentsByStatus c;
          g = Map_set g ''open'' (open_m metrics);
          g = Map_set g ''investigating'' (investigating_m metrics);
          g = Map_set g ''resolved'' (resolved_m metrics);
          g = Map_set g ''closed'' (closed_m metrics);
          h = incidentsBySeverity c;
          h = Map_set h ''P0'' (P0_n (bySeverity_m metrics));
          h = Map_set h ''P1'' (P1_n (bySeverity_m metrics));
          h = Map_set h ''P2'' (P2_n (bySeverity_m metrics));
          h = Map_set h ''P3'' (P3_n (bySeverity_m metrics));
          a = Map_set (activeIncidents_g c) ''total'' (open_m metrics + investigating_m metrics)
      in c\<lparr>incidentsByStatus := g, incidentsBySeverity := h, activeIncidents_g := a\<rparr>)"

text \<open>The value a gauge shows for a label; a label never set shows nothing.\<close>

definition gauge_value :: "Gauge \<Rightarrow> string \<Rightarrow> nat option" where
  "gauge_value g label = Map_get g label"

subsection \<open>Daily report (generateDailyMetrics)\<close>

text \<open>
  \<open>Math.round\<close> rounds to the nearest integer, a half towards plus infinity.
\<close>

definition Math_round :: "rat \<Rightarrow> int" where
  "Math_round x = \<lfloor>x + 1 / 2\<rfloor>"

record DailyMetrics =
  incidentsCreatedToday :: nat
  incidentsResolvedToday :: nat
  avgResolutionTimeToday :: int
  criticalIncidentsToday :: nat
  activeIncidents :: nat

text \<open>
  \<open>today\<close> is the value of \<open>new Date()\<close> after \<open>setHours(0, 0, 0, 0)\<close>: local
  midnight of the current day, which depends on the time zone of the process and is an
  argument here. \<open>resolvedSince\<close> is the test
  \<open>incident.resolvedAt && incident.resolvedAt >= today\<close> of two of the filters; the
  second adds \<open>&& incident.createdAt\<close>, which holds of every date object.
\<close>

definition resolvedSince :: "Date \<Rightarrow> Incident \<Rightarrow> bool" where
  "resolvedSince today incident =
     (case resolvedAt incident of None \<Rightarrow> False | Some r \<Rightarrow> r \<ge> today)"

definition generateDailyMetrics :: "IncidentManager \<Rightarrow> Date \<Rightarrow> DailyMetrics" where
  "generateDailyMetrics incidentManager today =
     (let allIncidents = getAllIncidents incidentManager;
          incidentsCreatedToday =
            length (filter (\<lambda>incident. createdAt incident \<ge> today) allIncidents);
          incidentsResolvedToday = length (filter (resolvedSince today) allIncidents);
          criticalIncidentsToday =
            length (filter (\<lambda>incident. createdAt incident \<ge> today \<and>
                      (severity incident = P0 \<or> severity incident = P1)) allIncidents);
          resolvedTodayWithTimes = filter (resolvedSince today) allIncidents;
          avgResolutionTimeToday =
            (if length resolvedTodayWithTimes > 0
             then of_int (foldl addResolutionTime 0 resolvedTodayWithTimes)
                    / of_nat (length resolvedTodayWithTimes) / (1000 * 60)
             else 0);
          activeIncidents = length (getOpenIncidents incidentManager)
      in \<lparr> incidentsCreatedToday = incidentsCreatedToday,
           incidentsResolvedToday = incidentsResolvedToday,
           avgResolutionTimeToday = Math_round avgResolutionTimeToday,
           criticalIncidentsToday = criticalIncidentsToday,
           activeIncidents = activeIncidents \<rparr>)"

text \<open>
  The value in the words of the specification: the arithmetic mean, over the incidents
  whose \<open>resolvedAt\<close> is set and not before \<open>today\<close>, of \<open>resolvedAt\<close> minus
  \<open>createdAt\<close> in minutes, and 0 when there is no such incident.
\<close>

definition resolutionMinutes :: "Incident \<Rightarrow> rat" where
  "resolutionMinutes incident =
     (case resolvedAt incident of
        None \<Rightarrow> 0
      | Some r \<Rightarrow> of_int (r - createdAt incident) / 60000)"

definition meanResolutionMinutes_spec :: "IncidentManager \<Rightarrow> Date \<Rightarrow> rat" where
  "meanResolutionMinutes_spec s today =
     (let resolvedToday = filter (resolvedSince today) (getAllIncidents s)
      in if resolvedToday = [] then 0
         else sum_list (map resolutionMinutes resolvedToday) / of_nat (length resolvedToday))"

text \<open>The sum of a gauge over some of its labels.\<close>

definition gauge_sum :: "Gauge \<Rightarrow> string list \<Rightarrow> nat" where
  "gauge_sum g labels =
     sum_list (map (\<lambda>l. case gauge_value g l of None \<Rightarrow> 0 | Some n \<Rightarrow> n) labels)"

section \<open>Webhook severity normalisation (app.ts)\<close>

text \<open>
  Strings are lists of bytes. \<open>toLowerCase\<close> and \<open>toUpperCase\<close> act on the ASCII
  letters and leave every other byte as it is; no character outside ASCII has a
  lower-case or upper-case form made of the ASCII characters that occur in the tokens
  compared below.
\<close>

definition toLowerCase_char :: "char \<Rightarrow> char" where
  "toLowerCase_char c =
     (let n = of_char c :: nat in if 65 \<le> n \<and> n \<le> 90 then char_of (n + 32) else c)"

definition toUpperCase_char :: "char \<Rightarrow> char" where
  "toUpperCase_char c =
     (let n = of_char c :: nat in if 97 \<le> n \<and> n \<le> 122 then char_of (n - 32) else c)"

definition toLowerCase :: "string \<Rightarrow> string" where
  "toLowerCase str = map toLowerCase_char str"

definition toUpperCase :: "string \<Rightarrow> string" where
  "toUpperCase str = map toUpperCase_char str"

text \<open>
  The argument is \<open>alert.severity || alert.priority\<close>, possibly absent;
  \<open>alertSeverity || ''\<close> turns an absent one into the empty string.
\<close>

definition mapAlertSeverity :: "string option \<Rightarrow> Severity" where
  "mapAlertSeverity alertSeverity =
     (let severity = toLowerCase (case alertSeverity of None \<Rightarrow> [] | Some a \<Rightarrow> a)
      in if severity \<in> set [''critical'', ''p0'', ''sev0'', ''high''] then P0
         else if severity \<in> set [''high'', ''p1'', ''sev1'', ''medium''] then P1
         else if severity \<in> set [''medium'', ''p2'', ''sev2'', ''low''] then P2
         else P3)"

text \<open>
  The rule as the specification words it: a list of token sets with their severities,
  tried in order, the first set that holds the lower-cased string giving the result and
  P3 when none does.
\<close>

fun firstMatch :: "(string list \<times> Severity) list \<Rightarrow> string \<Rightarrow> Severity" where
  "firstMatch [] x = P3"
| "firstMatch ((tokens, sev) # rules) x = (if x \<in> set tokens then sev else firstMatch rules x)"

definition severityRules :: "(string list \<times> Severity) list" where
  "severityRules =
     [([''critical'', ''p0'', ''sev0'', ''high''], P0),
      ([''high'', ''p1'', ''sev1'', ''medium''], P1),
      ([''medium'', ''p2'', ''sev2'', ''low''], P2)]"

definition normalizeSeverity_spec :: "string option \<Rightarrow> Severity" where
  "normalizeSeverity_spec x =
     firstMatch severityRules (toLowerCase (case x of None \<Rightarrow> [] | Some a \<Rightarrow> a))"

section \<open>The create command (handlers/slackHandlers.ts)\<close>

text \<open>
  \<open>handleCreateIncident\<close> up to its call of \<open>createIncident\<close>: the check of the
  number of arguments, the title with its double quotes removed, and the check of the
  severity token. What follows a creation is not modelled: the calls to the chat
  platform and the assignment of the new channel to \<open>channelId\<close> of the returned
  incident. The cast of the checked token to the severity type is \<open>severityOfToken\<close>.
\<close>

fun join :: "string \<Rightarrow> string list \<Rightarrow> string" where
  "join sep [] = []"
| "join sep [x] = x"
| "join sep (x # y # ys) = x @ sep @ join sep (y # ys)"

definition removeQuotes :: "string \<Rightarrow> string" where
  "removeQuotes str = filter (\<lambda>c. c \<noteq> CHR 0x22) str"

definition severityOfToken :: "string \<Rightarrow> Severity option" where
  "severityOfToken tok =
     (if tok = ''P0'' then Some P0
      else if tok = ''P1'' then Some P1
      else if tok = ''P2'' then Some P2
      else if tok = ''P3'' then Some P3
      else None)"

datatype CreateResponse = UsageMessage | InvalidSeverityMessage | IncidentCreated Incident

definition handleCreateIncident ::
  "IncidentManager \<Rightarrow> string list \<Rightarrow> string \<Rightarrow> string \<Rightarrow> string \<Rightarrow> Date
     \<Rightarrow> CreateResponse \<times> IncidentManager" where
  "handleCreateIncident s args user newId eventId now =
     (if length args < 2 then (UsageMessage, s)
      else
        (let title = removeQuotes (join '' '' (butlast args));
             severity = toUpperCase (last args)
         in if severity \<notin> set [''P0'', ''P1'', ''P2'', ''P3''] then (InvalidSeverityMessage, s)
            else
              (case severityOfToken severity of
                 None \<Rightarrow> (InvalidSeverityMessage, s)
               | Some sev \<Rightarrow>
                   (let (incident, s') =
                          createIncident s
                            \<lparr> title_r = title, description_r = None, severity_r = sev,
                              assignee_r = Some user, source_r = Some Manual,
                              tags_r = None, metadata_r = None \<rparr>
                            newId eventId now
                    in (IncidentCreated incident, s')))))"

section \<open>Sequences of calls\<close>

text \<open>
  A call of one of the four operations that change the store, with its arguments and
  with what it reads from the environment.
\<close>

datatype Call =
    CreateCall CreateIncidentRequest string string Date
  | AssignCall string string Date string Date
  | StatusCall string Status "string option" Date Date string Date
  | CommentCall string string string string Date Date

text \<open>The call with the success flag it returns; a creation always succeeds.\<close>

fun perform :: "Call \<Rightarrow> IncidentManager \<Rightarrow> bool \<times> IncidentManager" where
  "perform (CreateCall request newId eventId now) s =
     (True, snd (createIncident s request newId eventId now))"
| "perform (AssignCall ident newAssignee tUpdated eventId tEvent) s =
     assignIncident s ident newAssignee tUpdated eventId tEvent"
| "perform (StatusCall ident newStatus user tUpdated tStamp eventId tEvent) s =
     updateIncidentStatus s ident newStatus user tUpdated tStamp eventId tEvent"
| "perform (CommentCall ident msg user eventId tEvent tUpdated) s =
     addIncidentComment s ident msg user eventId tEvent tUpdated"

fun run :: "Call list \<Rightarrow> IncidentManager \<Rightarrow> IncidentManager" where
  "run [] s = s"
| "run (c # cs) s = run cs (snd (perform c s))"

text \<open>The identifier a call is about.\<close>

fun target :: "Call \<Rightarrow> string" where
  "target (CreateCall request newId eventId now) = newId"
| "target (AssignCall ident newAssignee tUpdated eventId tEvent) = ident"
| "target (StatusCall ident newStatus user tUpdated tStamp eventId tEvent) = ident"
| "target (CommentCall ident msg user eventId tEvent tUpdated) = ident"

text \<open>A creation whose generated identifier is \<open>ident\<close>.\<close>

fun creates :: "string \<Rightarrow> Call \<Rightarrow> bool" where
  "creates ident (CreateCall request newId eventId now) = (newId = ident)"
| "creates ident _ = False"

text \<open>The clock reading a call stores as the timestamp of its event.\<close>

fun eventTime :: "Call \<Rightarrow> Date" where
  "eventTime (CreateCall request newId eventId now) = now"
| "eventTime (AssignCall ident newAssignee tUpdated eventId tEvent) = tEvent"
| "eventTime (StatusCall ident newStatus user tUpdated tStamp eventId tEvent) = tEvent"
| "eventTime (CommentCall ident msg user eventId tEvent tUpdated) = tEvent"

text \<open>The number of calls about \<open>ident\<close> that return success.\<close>

fun successful_mutations :: "string \<Rightarrow> Call list \<Rightarrow> IncidentManager \<Rightarrow> nat" where
  "successful_mutations ident [] s = 0"
| "successful_mutations ident (c # cs) s =
     (if target c = ident \<and> fst (perform c s) then 1 else 0)
       + successful_mutations ident cs (snd (perform c s))"

text \<open>
  A status update of \<open>ident\<close> to the status \<open>st\<close>, and the clock reading such an
  update takes for \<open>resolvedAt\<close> or \<open>closedAt\<close>.
\<close>

fun transition :: "Status \<Rightarrow> string \<Rightarrow> Call \<Rightarrow> bool" where
  "transition st ident (StatusCall ident' newStatus user tUpdated tStamp eventId tEvent) =
     (ident' = ident \<and> newStatus = st)"
| "transition st ident _ = False"

fun stampOf :: "Call \<Rightarrow> Date" where
  "stampOf (StatusCall ident newStatus user tUpdated tStamp eventId tEvent) = tStamp"
| "stampOf c = eventTime c"

definition stamps :: "Status \<Rightarrow> string \<Rightarrow> Call list \<Rightarrow> Date list" where
  "stamps st ident calls = map stampOf (filter (transition st ident) calls)"

subsection \<open>A scenario\<close>

text \<open>
  An incident "DB down" of severity P1 is created at time 0 in a fresh store, assigned,
  and resolved twice, 90 and 150 seconds after its creation; a comment goes to an
  identifier that does not exist.
\<close>

definition demoRequest :: CreateIncidentRequest where
  "demoRequest =
     \<lparr> title_r = ''DB down'', description_r = None, severity_r = P1, assignee_r = None,
       source_r = None, tags_r = None, metadata_r = None \<rparr>"

definition demoStore :: IncidentManager where
  "demoStore = snd (createIncident new_IncidentManager demoRequest ''INC-1'' ''EVT-1'' 0)"

definition demoCalls :: "Call list" where
  "demoCalls =
     [AssignCall ''INC-1'' ''U1'' 1000 ''EVT-2'' 1000,
      StatusCall ''INC-1'' Resolved None 90000 90000 ''EVT-3'' 90000,
      CommentCall ''missing-id'' ''hello'' ''U1'' ''EVT-4'' 100000 100000,
      StatusCall ''INC-1'' Resolved (Some ''U1'') 150000 150000 ''EVT-5'' 150000]"

section \<open>Properties\<close>

subsection \<open>The map and single calls\<close>

lemma Map_get_set_same: "Map_get (Map_set m k v) k = Some v"
  by (induction m) (auto simp: Map_get_def)

lemma Map_get_set_other: "k' \<noteq> k \<Longrightarrow> Map_get (Map_set m k v) k' = Map_get m k'"
  by (induction m) (auto simp: Map_get_def)

lemma getIncident_store:
  "getIncident (s\<lparr>incidents := Map_set (incidents s) k v\<rparr>) k' =
     (if k' = k then Some v else getIncident s k')"
  by (simp add: getIncident_def Map_get_set_same Map_get_set_other)

lemma assign_present:
  assumes "getIncident s ident = Some incident"
  shows "assignIncident s ident newAssignee tUpdated eventId tEvent =
           (True, s\<lparr>incidents := Map_set (incidents s) ident
              (incident\<lparr>assignee := Some newAssignee, updatedAt := tUpdated,
                 timeline := timeline incident
                   @ [assignmentEvent eventId ident (assignee incident) newAssignee tEvent]\<rparr>)\<rparr>)"
  using assms by (simp add: assignIncident_def getIncident_def Let_def)

lemma status_present:
  assumes "getIncident s ident = Some incident"
  shows "updateIncidentStatus s ident newStatus user tUpdated tStamp eventId tEvent =
           (True, s\<lparr>incidents := Map_set (incidents s) ident
              (incident\<lparr>status := newStatus, updatedAt := tUpdated,
                 resolvedAt := (if newStatus = Resolved then Some tStamp else resolvedAt incident),
                 closedAt := (if newStatus = Closed then Some tStamp else closedAt incident),
                 timeline := timeline incident
                   @ [statusEvent eventId ident (status incident) newStatus user tEvent]\<rparr>)\<rparr>)"
  using assms by (cases newStatus) (simp_all add: updateIncidentStatus_def getIncident_def Let_def)

lemma comment_present:
  assumes "getIncident s ident = Some incident"
  shows "addIncidentComment s ident msg user eventId tEvent tUpdated =
           (True, s\<lparr>incidents := Map_set (incidents s) ident
              (incident\<lparr>timeline := timeline incident @ [commentEvent eventId ident msg user tEvent],
                 updatedAt := tUpdated\<rparr>)\<rparr>)"
  using assms by (simp add: addIncidentComment_def getIncident_def Let_def)

lemma create_other:
  "newId \<noteq> ident \<Longrightarrow>
   getIncident (snd (createIncident s request newId eventId now)) ident = getIncident s ident"
  by (simp add: createIncident_def Let_def getIncident_store)

lemma assign_other:
  "ident' \<noteq> ident \<Longrightarrow>
   getIncident (snd (assignIncident s ident' a t1 e t2)) ident = getIncident s ident"
  by (cases "getIncident s ident'")
     (simp_all add: assignIncident_def Let_def getIncident_store getIncident_def[of s ident', symmetric])

lemma status_other:
  "ident' \<noteq> ident \<Longrightarrow>
   getIncident (snd (updateIncidentStatus s ident' st u t1 t2 e t3)) ident = getIncident s ident"
  by (cases "getIncident s ident'")
     (simp_all add: updateIncidentStatus_def Let_def getIncident_store getIncident_def[of s ident', symmetric])

lemma comment_other:
  "ident' \<noteq> ident \<Longrightarrow>
   getIncident (snd (addIncidentComment s ident' m u e t1 t2)) ident = getIncident s ident"
  by (cases "getIncident s ident'")
     (simp_all add: addIncidentComment_def Let_def getIncident_store getIncident_def[of s ident', symmetric])

lemma event_timestamps [simp]:
  "timestamp (assignmentEvent e i old a t) = t"
  "timestamp (statusEvent e i st st' u t) = t"
  "timestamp (commentEvent e i m u' t) = t"
  "timestamp (creationEvent e i inc t) = t"
  by (simp_all add: assignmentEvent_def statusEvent_def commentEvent_def creationEvent_def)

subsection \<open>Sequences of calls on one incident\<close>

lemma perform_step:
  assumes "getIncident s ident = Some incident" and "\<not> creates ident c"
  shows "\<exists>incident'. getIncident (snd (perform c s)) ident = Some incident'
     \<and> map timestamp (timeline incident') =
         map timestamp (timeline incident) @ (if target c = ident then [eventTime c] else [])
     \<and> resolvedAt incident' =
         (if transition Resolved ident c then Some (stampOf c) else resolvedAt incident)
     \<and> closedAt incident' =
         (if transition Closed ident c then Some (stampOf c) else closedAt incident)
     \<and> (target c = ident \<longrightarrow> fst (perform c s))"
proof (cases c)
  case (CreateCall request newId eventId now)
  with assms show ?thesis by (simp add: create_other)
next
  case (AssignCall ident' a t1 e t2)
  with assms show ?thesis
    by (cases "ident' = ident") (simp_all add: assign_present assign_other getIncident_store)
next
  case (StatusCall ident' st u t1 t2 e t3)
  with assms show ?thesis
    by (cases "ident' = ident") (simp_all add: status_present status_other getIncident_store)
next
  case (CommentCall ident' m u e t1 t2)
  with assms show ?thesis
    by (cases "ident' = ident") (simp_all add: comment_present comment_other getIncident_store)
qed

lemma run_trace:
  assumes "getIncident s ident = Some incident" and "\<forall>c \<in> set calls. \<not> creates ident c"
  shows "\<exists>incident'. getIncident (run calls s) ident = Some incident'
     \<and> map timestamp (timeline incident') =
         map timestamp (timeline incident) @ map eventTime (filter (\<lambda>c. target c = ident) calls)
     \<and> resolvedAt incident' =
         (if stamps Resolved ident calls = [] then resolvedAt incident
          else Some (last (stamps Resolved ident calls)))
     \<and> closedAt incident' =
         (if stamps Closed ident calls = [] then closedAt incident
          else Some (last (stamps Closed ident calls)))
     \<and> successful_mutations ident calls s = length (filter (\<lambda>c. target c = ident) calls)"
  using assms
proof (induction calls arbitrary: s incident)
  case Nil
  then show ?case by (simp add: stamps_def)
next
  case (Cons c cs)
  from Cons.prems have nc: "\<not> creates ident c" and rest: "\<forall>c \<in> set cs. \<not> creates ident c"
    by simp_all
  from perform_step[OF Cons.prems(1) nc] obtain mid where
    mid: "getIncident (snd (perform c s)) ident = Some mid"
    and ts: "map timestamp (timeline mid) =
         map timestamp (timeline incident) @ (if target c = ident then [eventTime c] else [])"
    and r: "resolvedAt mid =
         (if transition Resolved ident c then Some (stampOf c) else resolvedAt incident)"
    and cl: "closedAt mid =
         (if transition Closed ident c then Some (stampOf c) else closedAt incident)"
    and ok: "target c = ident \<longrightarrow> fst (perform c s)"
    by blast
  from Cons.IH[OF mid rest] obtain fin where
    fin: "getIncident (run cs (snd (perform c s))) ident = Some fin"
    and ts': "map timestamp (timeline fin) =
         map timestamp (timeline mid) @ map eventTime (filter (\<lambda>c. target c = ident) cs)"
    and r': "resolvedAt fin =
         (if stamps Resolved ident cs = [] then resolvedAt mid
          else Some (last (stamps Resolved ident cs)))"
    and cl': "closedAt fin =
         (if stamps Closed ident cs = [] then closedAt mid
          else Some (last (stamps Closed ident cs)))"
    and n': "successful_mutations ident cs (snd (perform c s)) =
         length (filter (\<lambda>c. target c = ident) cs)"
    by blast
  have "getIncident (run (c # cs) s) ident = Some fin" using fin by simp
  moreover have "map timestamp (timeline fin) =
         map timestamp (timeline incident)
           @ map eventTime (filter (\<lambda>c. target c = ident) (c # cs))"
    using ts ts' by simp
  moreover have "resolvedAt fin =
         (if stamps Resolved ident (c # cs) = [] then resolvedAt incident
          else Some (last (stamps Resolved ident (c # cs))))"
    using r r' by (simp add: stamps_def)
  moreover have "closedAt fin =
         (if stamps Closed ident (c # cs) = [] then closedAt incident
          else Some (last (stamps Closed ident (c # cs))))"
    using cl cl' by (simp add: stamps_def)
  moreover have "successful_mutations ident (c # cs) s =
         length (filter (\<lambda>c. target c = ident) (c # cs))"
    using n' ok by simp
  ultimately show ?case by blast
qed

subsection \<open>Counting, averages and letters\<close>

lemma count_by_status:
  "length (filter (\<lambda>i. status i = Open) xs)
     + length (filter (\<lambda>i. status i = Investigating) xs)
     + length (filter (\<lambda>i. status i = Resolved) xs)
     + length (filter (\<lambda>i. status i = Closed) xs) = length xs"
proof (induction xs)
  case Nil
  show ?case by simp
next
  case (Cons x xs)
  then show ?case by (cases "status x") simp_all
qed

lemma count_by_severity:
  "length (filter (\<lambda>i. severity i = P0) xs) + length (filter (\<lambda>i. severity i = P1) xs)
     + length (filter (\<lambda>i. severity i = P2) xs) + length (filter (\<lambda>i. severity i = P3) xs)
   = length xs"
proof (induction xs)
  case Nil
  show ?case by simp
next
  case (Cons x xs)
  then show ?case by (cases "severity x") simp_all
qed

lemma demoStore_missing: "getIncident demoStore ''missing-id'' = None"
  by (simp add: demoStore_def createIncident_def Let_def getIncident_store getIncident_def
      new_IncidentManager_def Map_get_def)

lemma foldl_addResolutionTime:
  "foldl addResolutionTime a xs =
     a + sum_list (map (\<lambda>i. case resolvedAt i of None \<Rightarrow> 0 | Some r \<Rightarrow> r - createdAt i) xs)"
  by (induction xs arbitrary: a) (simp_all add: addResolutionTime_def split: option.splits)

lemma sum_list_resolutionMinutes:
  "sum_list (map resolutionMinutes xs) =
     of_int (sum_list (map (\<lambda>i. case resolvedAt i of None \<Rightarrow> 0 | Some r \<Rightarrow> r - createdAt i) xs))
       / 60000"
  by (induction xs) (simp_all add: resolutionMinutes_def add_divide_distrib split: option.splits)

lemma Math_round_0: "Math_round 0 = 0"
  by (simp add: Math_round_def floor_eq_iff)

lemma of_char_less_256: "(of_char c :: nat) < 256"
  by (cases c) simp

lemma toLowerCase_toUpperCase_char:
  "toLowerCase_char (toUpperCase_char c) = toLowerCase_char c"
proof -
  let ?n = "of_char c :: nat"
  show ?thesis
  proof (cases "97 \<le> ?n \<and> ?n \<le> 122")
    case True
    then have up: "toUpperCase_char c = char_of (?n - 32)"
      by (simp add: toUpperCase_char_def)
    from True have "?n - 32 < 256"
      by arith
    then have "(of_char (char_of (?n - 32)) :: nat) = ?n - 32"
      by simp
    moreover from True have "65 \<le> ?n - 32 \<and> ?n - 32 \<le> 90" and "?n - 32 + 32 = ?n"
      by arith+
    ultimately have "toLowerCase_char (char_of (?n - 32)) = char_of ?n"
      by (simp add: toLowerCase_char_def Let_def)
    moreover from True have "toLowerCase_char c = c"
      by (simp add: toLowerCase_char_def Let_def)
    ultimately show ?thesis using up by simp
  next
    case False
    then show ?thesis by (auto simp: toUpperCase_char_def Let_def)
  qed
qed

lemma toLowerCase_idem_char:
  "toLowerCase_char (toLowerCase_char c) = toLowerCase_char c"
proof -
  let ?n = "of_char c :: nat"
  show ?thesis
  proof (cases "65 \<le> ?n \<and> ?n \<le> 90")
    case True
    then have "?n + 32 < 256"
      by arith
    then have "(of_char (char_of (?n + 32)) :: nat) = ?n + 32"
      by simp
    moreover from True have "\<not> (65 \<le> ?n + 32 \<and> ?n + 32 \<le> 90)"
      by arith
    ultimately have "toLowerCase_char (char_of (?n + 32)) = char_of (?n + 32)"
      by (simp add: toLowerCase_char_def Let_def)
    with True show ?thesis
      by (simp add: toLowerCase_char_def Let_def)
  next
    case False
    then show ?thesis by (auto simp: toLowerCase_char_def Let_def)
  qed
qed

lemma toLowerCase_toUpperCase: "toLowerCase (toUpperCase a) = toLowerCase a"
  by (simp add: toLowerCase_def toUpperCase_def toLowerCase_toUpperCase_char)

lemma toLowerCase_idem: "toLowerCase (toLowerCase a) = toLowerCase a"
  by (simp add: toLowerCase_def toLowerCase_idem_char)

lemma severityOfToken_Some:
  "tok \<in> set [''P0'', ''P1'', ''P2'', ''P3''] \<Longrightarrow> \<exists>sev. severityOfToken tok = Some sev"
  by (auto simp: severityOfToken_def)

subsection \<open>Resolution and closing times\<close>

text \<open>
  C1, as the code has it. Take an incident just created under \<open>ident\<close> and any calls
  after it that do not create an incident under the same identifier. Then
  \<open>resolvedAt\<close> (\<open>closedAt\<close>) is set if and only if one of the calls is a status
  update of this incident to resolved (closed); every such update stores its clock
  reading, so the field holds the reading of the latest one; no other call changes the
  field, and nothing unsets it.
\<close>

theorem resolvedAt_closedAt_hold_latest_transition:
  assumes "\<forall>c \<in> set calls. \<not> creates ident c"
  shows "\<exists>incident.
       getIncident (run calls (snd (createIncident s request ident eventId now))) ident
         = Some incident
     \<and> (resolvedAt incident \<noteq> None \<longleftrightarrow> (\<exists>c \<in> set calls. transition Resolved ident c))
     \<and> (closedAt incident \<noteq> None \<longleftrightarrow> (\<exists>c \<in> set calls. transition Closed ident c))
     \<and> resolvedAt incident =
         (if stamps Resolved ident calls = [] then None
          else Some (last (stamps Resolved ident calls)))
     \<and> closedAt incident =
         (if stamps Closed ident calls = [] then None
          else Some (last (stamps Closed ident calls)))"
proof -
  let ?s1 = "snd (createIncident s request ident eventId now)"
  let ?new = "fst (createIncident s request ident eventId now)"
  have start: "getIncident ?s1 ident = Some ?new"
    by (simp add: createIncident_def Let_def getIncident_store)
  have fresh: "resolvedAt ?new = None" "closedAt ?new = None"
    by (simp_all add: createIncident_def Let_def)
  have nonempty: "stamps st ident calls \<noteq> [] \<longleftrightarrow> (\<exists>c \<in> set calls. transition st ident c)"
    for st
    by (auto simp: stamps_def filter_empty_conv)
  from run_trace[OF start assms] obtain incident where
    "getIncident (run calls ?s1) ident = Some incident"
    "resolvedAt incident =
       (if stamps Resolved ident calls = [] then resolvedAt ?new
        else Some (last (stamps Resolved ident calls)))"
    "closedAt incident =
       (if stamps Closed ident calls = [] then closedAt ?new
        else Some (last (stamps Closed ident calls)))"
    by blast
  then show ?thesis
    using fresh nonempty[of Resolved] nonempty[of Closed] by (intro exI[of _ incident]) auto
qed

theorem resolvedAt_closedAt_hold_latest_transition_witness:
  "list_all (\<lambda>c. \<not> creates ''INC-1'' c) demoCalls
   \<and> (\<exists>c \<in> set demoCalls. transition Resolved ''INC-1'' c)
   \<and> \<not> (\<exists>c \<in> set demoCalls. transition Closed ''INC-1'' c)
   \<and> (\<exists>incident. getIncident (run demoCalls demoStore) ''INC-1'' = Some incident
        \<and> resolvedAt incident = Some 150000 \<and> closedAt incident = None)"
proof -
  have h: "\<forall>c \<in> set demoCalls. \<not> creates ''INC-1'' c"
    by (simp add: demoCalls_def)
  have st: "stamps Resolved ''INC-1'' demoCalls = [90000, 150000]"
    "stamps Closed ''INC-1'' demoCalls = []"
    by (simp_all add: stamps_def demoCalls_def)
  have tr: "\<exists>c \<in> set demoCalls. transition Resolved ''INC-1'' c"
    "\<not> (\<exists>c \<in> set demoCalls. transition Closed ''INC-1'' c)"
    by (simp_all add: demoCalls_def)
  from resolvedAt_closedAt_hold_latest_transition
    [OF h, of new_IncidentManager demoRequest "''EVT-1''" 0]
  show ?thesis using h st tr by (auto simp: demoStore_def list_all_iff)
qed

text \<open>
  The claim of C1 fails where it says that the second of two transitions to resolved leaves
  \<open>resolvedAt\<close> as it was: in the scenario the first sets it to 90000 and the second
  to 150000.
\<close>

theorem resolvedAt_overwritten_counterexample:
  "map_option resolvedAt (getIncident (run (take 2 demoCalls) demoStore) ''INC-1'')
     = Some (Some 90000)
   \<and> map_option resolvedAt (getIncident (run demoCalls demoStore) ''INC-1'')
     = Some (Some 150000)"
  by code_simp

subsection \<open>Creation requests\<close>

text \<open>
  C2, as the code has it. \<open>createIncident\<close> checks nothing and signals no error:
  whatever the request, also one with an empty title, the incident is stored under the
  new identifier and returned. The request type admits no severity outside P0 to P3;
  such a token is turned down by the create command of the chat adapter, which answers
  with a message before it calls \<open>createIncident\<close> and leaves the store as it was, as
  it does when there are fewer than two arguments.
\<close>

theorem createIncident_accepts_every_request:
  "(let (incident, s') = createIncident s request newId eventId now
    in getIncident s' newId = Some incident
       \<and> title incident = title_r request
       \<and> severity incident = severity_r request
       \<and> s' = s\<lparr>incidents := Map_set (incidents s) newId incident\<rparr>)
   \<and> (length args < 2 \<longrightarrow>
        handleCreateIncident s args user newId eventId now = (UsageMessage, s))
   \<and> (2 \<le> length args \<and> toUpperCase (last args) \<notin> set [''P0'', ''P1'', ''P2'', ''P3'']
        \<longrightarrow> handleCreateIncident s args user newId eventId now = (InvalidSeverityMessage, s))
   \<and> (2 \<le> length args \<and> toUpperCase (last args) \<in> set [''P0'', ''P1'', ''P2'', ''P3'']
        \<longrightarrow> (\<exists>incident.
              fst (handleCreateIncident s args user newId eventId now) = IncidentCreated incident
              \<and> title incident = removeQuotes (join '' '' (butlast args))
              \<and> getIncident (snd (handleCreateIncident s args user newId eventId now)) newId
                  = Some incident))"
proof -
  have create: "(let (incident, s') = createIncident s request newId eventId now
    in getIncident s' newId = Some incident
       \<and> title incident = title_r request
       \<and> severity incident = severity_r request
       \<and> s' = s\<lparr>incidents := Map_set (incidents s) newId incident\<rparr>)"
    by (simp add: createIncident_def Let_def getIncident_store)
  have usage: "length args < 2 \<longrightarrow>
        handleCreateIncident s args user newId eventId now = (UsageMessage, s)"
    by (simp add: handleCreateIncident_def)
  have invalid: "2 \<le> length args \<and> toUpperCase (last args) \<notin> set [''P0'', ''P1'', ''P2'', ''P3'']
        \<longrightarrow> handleCreateIncident s args user newId eventId now = (InvalidSeverityMessage, s)"
    by (simp add: handleCreateIncident_def Let_def)
  have valid: "\<exists>incident.
              fst (handleCreateIncident s args user newId eventId now) = IncidentCreated incident
              \<and> title incident = removeQuotes (join '' '' (butlast args))
              \<and> getIncident (snd (handleCreateIncident s args user newId eventId now)) newId
                  = Some incident"
    if "2 \<le> length args" and "toUpperCase (last args) \<in> set [''P0'', ''P1'', ''P2'', ''P3'']"
  proof -
    from severityOfToken_Some[OF that(2)] obtain sev where
      "severityOfToken (toUpperCase (last args)) = Some sev" by blast
    with that show ?thesis
      by (simp add: handleCreateIncident_def Let_def createIncident_def getIncident_store
          del: set_simps)
  qed
  from create usage invalid valid show ?thesis by blast
qed

theorem createIncident_accepts_every_request_witness:
  "handleCreateIncident demoStore [''DB'', ''down'', ''P9''] ''U1'' ''INC-2'' ''EVT-2'' 5
     = (InvalidSeverityMessage, demoStore)
   \<and> handleCreateIncident demoStore [''DB''] ''U1'' ''INC-2'' ''EVT-2'' 5
     = (UsageMessage, demoStore)
   \<and> (\<exists>incident.
         fst (handleCreateIncident demoStore [[CHR 0x22, CHR 0x22], ''p1''] ''U1'' ''INC-2''
                ''EVT-2'' 5) = IncidentCreated incident
         \<and> title incident = []
         \<and> getIncident
              (snd (handleCreateIncident demoStore [[CHR 0x22, CHR 0x22], ''p1''] ''U1''
                      ''INC-2'' ''EVT-2'' 5)) ''INC-2'' = Some incident)"
proof -
  have a: "2 \<le> length [''DB'', ''down'', ''P9'']
      \<and> toUpperCase (last [''DB'', ''down'', ''P9'']) \<notin> set [''P0'', ''P1'', ''P2'', ''P3'']"
    by code_simp
  have b: "length [''DB''] < 2"
    by simp
  have c: "2 \<le> length [[CHR 0x22, CHR 0x22], ''p1'']
      \<and> toUpperCase (last [[CHR 0x22, CHR 0x22], ''p1'']) \<in> set [''P0'', ''P1'', ''P2'', ''P3'']"
    by code_simp
  have d: "removeQuotes (join '' '' (butlast [[CHR 0x22, CHR 0x22], ''p1''])) = []"
    by code_simp
  from createIncident_accepts_every_request
      [of demoStore demoRequest "''INC-2''" "''EVT-2''" 5 "[''DB'', ''down'', ''P9'']" "''U1''"]
    createIncident_accepts_every_request
      [of demoStore demoRequest "''INC-2''" "''EVT-2''" 5 "[''DB'']" "''U1''"]
    createIncident_accepts_every_request
      [of demoStore demoRequest "''INC-2''" "''EVT-2''" 5 "[[CHR 0x22, CHR 0x22], ''p1'']" "''U1''"]
    a b c d
  show ?thesis by (simp del: set_simps)
qed

text \<open>
  The claim of C2 fails for a request without a title: the type of the request makes
  the title a string, and the empty one (which the command \<open>/incident create "" P1\<close>
  sends) is stored like any other.
\<close>

theorem createIncident_stores_untitled_counterexample:
  "incidents new_IncidentManager = []
   \<and> map_option title
       (getIncident
          (snd (createIncident new_IncidentManager (demoRequest\<lparr>title_r := []\<rparr>)
                  ''INC-1'' ''EVT-1'' 0)) ''INC-1'') = Some []
   \<and> length
       (incidents
          (snd (createIncident new_IncidentManager (demoRequest\<lparr>title_r := []\<rparr>)
                  ''INC-1'' ''EVT-1'' 0))) = 1"
  by code_simp

subsection \<open>The created incident\<close>

text \<open>
  C3. The incident returned by \<open>createIncident\<close> is open, its timeline is exactly one
  event of type created, its \<open>createdAt\<close> equals its \<open>updatedAt\<close>, and
  \<open>getIncident\<close> on its identifier returns it in the store after the call.
\<close>

theorem createIncident_returns_open_incident:
  "(let (incident, s') = createIncident s request newId eventId now
    in status incident = Open
       \<and> length (timeline incident) = 1
       \<and> map type_e (timeline incident) = [EvCreated]
       \<and> createdAt incident = updatedAt incident
       \<and> getIncident s' newId = Some incident)"
  by (simp add: createIncident_def creationEvent_def getIncident_store Let_def)

theorem createIncident_returns_open_incident_witness:
  "(let (incident, s') = createIncident new_IncidentManager demoRequest ''INC-1'' ''EVT-1'' 0
    in status incident = Open
       \<and> length (timeline incident) = 1
       \<and> map type_e (timeline incident) = [EvCreated]
       \<and> createdAt incident = updatedAt incident
       \<and> getIncident s' ''INC-1'' = Some incident)"
  using createIncident_returns_open_incident
    [of new_IncidentManager demoRequest "''INC-1''" "''EVT-1''" 0]
  by simp

subsection \<open>Timeline length and order\<close>

text \<open>
  C4, as the code has it. Take an incident just created under \<open>ident\<close> at time
  \<open>now\<close> and any calls after it that do not create an incident under the same
  identifier. Then the length of its timeline is one, for the creation, plus the number
  of calls about it that returned success. The timestamps of its timeline are the clock
  readings of the creation and of these calls, in the order of the calls, whatever the
  readings are: nothing compares a reading with the timestamp before it. So the
  timestamps are non-decreasing when the clock readings of the calls are.
\<close>

theorem timeline_counts_successful_mutations:
  assumes "\<forall>c \<in> set calls. \<not> creates ident c"
  shows "\<exists>incident.
       getIncident (run calls (snd (createIncident s request ident eventId now))) ident
         = Some incident
     \<and> length (timeline incident)
         = 1 + successful_mutations ident calls (snd (createIncident s request ident eventId now))
     \<and> map timestamp (timeline incident)
         = now # map eventTime (filter (\<lambda>c. target c = ident) calls)
     \<and> (sorted (now # map eventTime calls) \<longrightarrow> sorted (map timestamp (timeline incident)))"
proof -
  let ?s1 = "snd (createIncident s request ident eventId now)"
  let ?new = "fst (createIncident s request ident eventId now)"
  let ?mine = "filter (\<lambda>c. target c = ident) calls"
  have start: "getIncident ?s1 ident = Some ?new"
    by (simp add: createIncident_def Let_def getIncident_store)
  have first: "map timestamp (timeline ?new) = [now]"
    by (simp add: createIncident_def Let_def)
  from run_trace[OF start assms] obtain incident where
    found: "getIncident (run calls ?s1) ident = Some incident"
    and ts: "map timestamp (timeline incident) =
       map timestamp (timeline ?new) @ map eventTime ?mine"
    and n: "successful_mutations ident calls ?s1 = length ?mine"
    by blast
  from ts first have ts': "map timestamp (timeline incident) = now # map eventTime ?mine"
    by simp
  have "length (timeline incident) = length (map timestamp (timeline incident))"
    by simp
  also have "\<dots> = 1 + length ?mine"
    by (simp only: ts') simp
  finally have len: "length (timeline incident) = 1 + successful_mutations ident calls ?s1"
    using n by simp
  have ord: "sorted (map timestamp (timeline incident))" if "sorted (now # map eventTime calls)"
  proof -
    from that have "sorted (map eventTime calls)"
      and "\<forall>t \<in> set (map eventTime calls). now \<le> t"
      by simp_all
    then have "sorted (now # map eventTime ?mine)"
      by (auto intro: sorted_filter)
    with ts' show ?thesis by simp
  qed
  show ?thesis
  proof (intro exI conjI impI)
    show "getIncident (run calls ?s1) ident = Some incident"
      by (rule found)
    show "length (timeline incident) = 1 + successful_mutations ident calls ?s1"
      by (rule len)
    show "map timestamp (timeline incident) = now # map eventTime ?mine"
      by (rule ts')
    show "sorted (map timestamp (timeline incident))" if "sorted (now # map eventTime calls)"
      using that by (rule ord)
  qed
qed

theorem timeline_counts_successful_mutations_witness:
  "list_all (\<lambda>c. \<not> creates ''INC-1'' c) demoCalls
   \<and> sorted (0 # map eventTime demoCalls)
   \<and> successful_mutations ''INC-1'' demoCalls demoStore = 3
   \<and> (\<exists>incident. getIncident (run demoCalls demoStore) ''INC-1'' = Some incident
        \<and> length (timeline incident) = 4
        \<and> map timestamp (timeline incident) = [0, 1000, 90000, 150000]
        \<and> sorted (map timestamp (timeline incident)))"
proof -
  have h: "\<forall>c \<in> set demoCalls. \<not> creates ''INC-1'' c"
    by (simp add: demoCalls_def)
  have clock: "sorted (0 # map eventTime demoCalls)"
    by (simp add: demoCalls_def)
  have n: "successful_mutations ''INC-1'' demoCalls demoStore = 3"
    by code_simp
  have mine: "map eventTime (filter (\<lambda>c. target c = ''INC-1'') demoCalls)
      = [1000, 90000, 150000]"
    by (simp add: demoCalls_def)
  from timeline_counts_successful_mutations
    [OF h, of new_IncidentManager demoRequest "''EVT-1''" 0]
  show ?thesis using h clock n mine by (auto simp: demoStore_def list_all_iff)
qed

text \<open>
  The claim of C4 fails where it says that the timestamps are non-decreasing for every
  sequence of operations: an incident created when the clock reads 100 and assigned when
  it reads 50 has the timestamps 100 and 50 in its timeline.
\<close>

theorem timeline_follows_clock_counterexample:
  "map_option (\<lambda>incident. map timestamp (timeline incident))
     (getIncident
        (run [AssignCall ''INC-1'' ''U1'' 50 ''EVT-2'' 50]
           (snd (createIncident new_IncidentManager demoRequest ''INC-1'' ''EVT-1'' 100)))
        ''INC-1'') = Some [100, 50]
   \<and> \<not> sorted [100, 50 :: int]"
  by code_simp

subsection \<open>Unknown identifiers\<close>

text \<open>
  C5. For an identifier that is not in the store, \<open>assignIncident\<close>,
  \<open>updateIncidentStatus\<close> and \<open>addIncidentComment\<close> return \<open>false\<close> and the store
  after the call is the store before it.
\<close>

theorem unknown_id_fails_without_effect:
  assumes "getIncident s ident = None"
  shows "assignIncident s ident newAssignee tUpdated eventId tEvent = (False, s)
     \<and> updateIncidentStatus s ident newStatus user tUpdated tStamp eventId tEvent = (False, s)
     \<and> addIncidentComment s ident msg commenter eventId tEvent tUpdated = (False, s)"
  using assms
  by (simp add: getIncident_def assignIncident_def updateIncidentStatus_def
      addIncidentComment_def)

theorem unknown_id_fails_without_effect_witness:
  "getIncident demoStore ''missing-id'' = None
   \<and> assignIncident demoStore ''missing-id'' ''U1'' 5 ''EVT-9'' 5 = (False, demoStore)
   \<and> updateIncidentStatus demoStore ''missing-id'' Resolved None 5 5 ''EVT-9'' 5
       = (False, demoStore)
   \<and> addIncidentComment demoStore ''missing-id'' ''hello'' ''U1'' ''EVT-9'' 5 5
       = (False, demoStore)"
  using unknown_id_fails_without_effect [OF demoStore_missing] demoStore_missing
  by simp

subsection \<open>The open listing\<close>

text \<open>
  C6. \<open>getOpenIncidents\<close> is \<open>getAllIncidents\<close> filtered by status open or
  investigating: a subsequence in the same order, with exactly those elements.
\<close>

theorem getOpenIncidents_is_filtered_listing:
  "getOpenIncidents s = filter (\<lambda>i. status i \<in> {Open, Investigating}) (getAllIncidents s)
   \<and> subseq (getOpenIncidents s) (getAllIncidents s)
   \<and> set (getOpenIncidents s) =
       {i \<in> set (getAllIncidents s). status i = Open \<or> status i = Investigating}"
  by (auto simp: getOpenIncidents_def)

theorem getOpenIncidents_is_filtered_listing_witness:
  "getOpenIncidents demoStore = getAllIncidents demoStore
   \<and> length (getAllIncidents demoStore) = 1
   \<and> subseq (getOpenIncidents demoStore) (getAllIncidents demoStore)"
proof -
  have "getOpenIncidents demoStore = getAllIncidents demoStore"
    and "length (getAllIncidents demoStore) = 1"
    by code_simp+
  with getOpenIncidents_is_filtered_listing [of demoStore] show ?thesis
    by simp
qed

subsection \<open>Sums of the snapshot\<close>

text \<open>
  C7. In the snapshot of \<open>getIncidentMetrics\<close> the four counts by status add up to
  the total, and so do the four counts by severity; the total is the number of incidents.
  The two gauges show the same sums once \<open>updateIncidentStatusMetrics\<close> has run.
\<close>

theorem metrics_buckets_sum_to_total:
  "(let m = getIncidentMetrics s; c' = updateIncidentStatusMetrics c s
    in open_m m + investigating_m m + resolved_m m + closed_m m = total_m m
       \<and> P0_n (bySeverity_m m) + P1_n (bySeverity_m m) + P2_n (bySeverity_m m)
           + P3_n (bySeverity_m m) = total_m m
       \<and> total_m m = length (getAllIncidents s)
       \<and> gauge_sum (incidentsByStatus c') [''open'', ''investigating'', ''resolved'', ''closed'']
           = total_m m
       \<and> gauge_sum (incidentsBySeverity c') [''P0'', ''P1'', ''P2'', ''P3''] = total_m m)"
  using count_by_status [of "getAllIncidents s"] count_by_severity [of "getAllIncidents s"]
  by (simp add: getIncidentMetrics_def updateIncidentStatusMetrics_def Let_def gauge_sum_def
      gauge_value_def Map_get_set_same Map_get_set_other)

theorem metrics_buckets_sum_to_total_witness:
  "(let m = getIncidentMetrics (run demoCalls demoStore)
    in total_m m = 1 \<and> resolved_m m = 1
       \<and> open_m m + investigating_m m + resolved_m m + closed_m m = total_m m
       \<and> P0_n (bySeverity_m m) + P1_n (bySeverity_m m) + P2_n (bySeverity_m m)
           + P3_n (bySeverity_m m) = total_m m)"
proof -
  have "total_m (getIncidentMetrics (run demoCalls demoStore)) = 1"
    and "resolved_m (getIncidentMetrics (run demoCalls demoStore)) = 1"
    by code_simp+
  with metrics_buckets_sum_to_total [of "run demoCalls demoStore"] show ?thesis
    by (simp add: Let_def)
qed

subsection \<open>Average resolution time of the day\<close>

text \<open>
  C8, as the code has it. \<open>avgResolutionTimeToday\<close> is the mean resolution time in
  minutes of the incidents resolved since \<open>today\<close>, rounded by \<open>Math.round\<close> to the
  nearest integer (a half towards plus infinity), and 0 when no incident was resolved
  since \<open>today\<close>.
\<close>

theorem avgResolutionTimeToday_is_rounded_mean:
  "avgResolutionTimeToday (generateDailyMetrics s today)
     = Math_round (meanResolutionMinutes_spec s today)
   \<and> Math_round (meanResolutionMinutes_spec s today)
     = \<lfloor>meanResolutionMinutes_spec s today + 1 / 2\<rfloor>
   \<and> (if filter (resolvedSince today) (getAllIncidents s) = []
       then avgResolutionTimeToday (generateDailyMetrics s today) = 0
       else meanResolutionMinutes_spec s today =
              sum_list (map resolutionMinutes (filter (resolvedSince today) (getAllIncidents s)))
                / of_nat (length (filter (resolvedSince today) (getAllIncidents s))))"
proof (cases "filter (resolvedSince today) (getAllIncidents s) = []")
  case True
  then show ?thesis
    by (simp add: generateDailyMetrics_def meanResolutionMinutes_spec_def Let_def Math_round_0)
      (simp add: Math_round_def floor_eq_iff)
next
  case False
  let ?rs = "filter (resolvedSince today) (getAllIncidents s)"
  have "of_int (foldl addResolutionTime 0 ?rs) / of_nat (length ?rs) / (1000 * 60)
      = sum_list (map resolutionMinutes ?rs) / (of_nat (length ?rs) :: rat)"
    by (simp add: foldl_addResolutionTime sum_list_resolutionMinutes)
  with False show ?thesis
    by (simp add: generateDailyMetrics_def meanResolutionMinutes_spec_def Let_def)
      (simp add: Math_round_def)
qed

theorem avgResolutionTimeToday_is_rounded_mean_witness:
  "avgResolutionTimeToday (generateDailyMetrics (run demoCalls demoStore) 0) = 3
   \<and> meanResolutionMinutes_spec (run demoCalls demoStore) 0 = 5 / 2
   \<and> avgResolutionTimeToday (generateDailyMetrics demoStore 0) = 0"
  using avgResolutionTimeToday_is_rounded_mean [of "run demoCalls demoStore" 0]
    avgResolutionTimeToday_is_rounded_mean [of demoStore 0]
  by code_simp

text \<open>
  The claim of C8 fails where the mean is not a whole number of minutes: one incident
  resolved 90 seconds after its creation gives a mean of 3/2 and a report of 2.
\<close>

theorem avgResolutionTimeToday_not_mean_counterexample:
  "avgResolutionTimeToday (generateDailyMetrics (run (take 2 demoCalls) demoStore) 0) = 2
   \<and> meanResolutionMinutes_spec (run (take 2 demoCalls) demoStore) 0 = 3 / 2"
  by code_simp

subsection \<open>Severity of an alert\<close>

text \<open>
  C9. \<open>mapAlertSeverity\<close> is the first-match rule of the specification on the
  lower-cased string, so that a copy of a string with its ASCII letters in upper case or
  in lower case maps as the string does: critical, p0, sev0 and high give P0; p1, sev1 and medium give P1; p2,
  sev2 and low give P2; every other string, the empty and the absent one too, gives P3.
\<close>

theorem mapAlertSeverity_first_match:
  "mapAlertSeverity x = normalizeSeverity_spec x
   \<and> mapAlertSeverity (map_option toUpperCase x) = mapAlertSeverity x
   \<and> mapAlertSeverity (map_option toLowerCase x) = mapAlertSeverity x
   \<and> mapAlertSeverity (Some a) =
       (let low = toLowerCase a
        in if low \<in> {''critical'', ''p0'', ''sev0'', ''high''} then P0
           else if low \<in> {''p1'', ''sev1'', ''medium''} then P1
           else if low \<in> {''p2'', ''sev2'', ''low''} then P2
           else P3)
   \<and> mapAlertSeverity None = P3
   \<and> mapAlertSeverity (Some []) = P3"
proof -
  have "mapAlertSeverity (Some a) =
       (let low = toLowerCase a
        in if low \<in> {''critical'', ''p0'', ''sev0'', ''high''} then P0
           else if low \<in> {''p1'', ''sev1'', ''medium''} then P1
           else if low \<in> {''p2'', ''sev2'', ''low''} then P2
           else P3)"
    by (simp add: mapAlertSeverity_def Let_def)
  moreover
  have "mapAlertSeverity x = normalizeSeverity_spec x"
    by (simp add: mapAlertSeverity_def normalizeSeverity_spec_def severityRules_def Let_def)
  moreover have "mapAlertSeverity (map_option toUpperCase x) = mapAlertSeverity x"
    by (cases x) (simp_all add: mapAlertSeverity_def toLowerCase_toUpperCase)
  moreover have "mapAlertSeverity (map_option toLowerCase x) = mapAlertSeverity x"
    by (cases x) (simp_all add: mapAlertSeverity_def toLowerCase_idem)
  moreover have "mapAlertSeverity None = P3" "mapAlertSeverity (Some []) = P3"
    by (simp_all add: mapAlertSeverity_def toLowerCase_def)
  ultimately show ?thesis by simp
qed

theorem mapAlertSeverity_first_match_witness:
  "mapAlertSeverity (Some ''HIGH'') = P0
   \<and> mapAlertSeverity (Some ''Medium'') = P1
   \<and> mapAlertSeverity (Some ''low'') = P2
   \<and> mapAlertSeverity (Some ''Sev2'') = P2
   \<and> mapAlertSeverity (Some ''warning'') = P3
   \<and> normalizeSeverity_spec (Some ''HIGH'') = P0"
proof -
  have "mapAlertSeverity (Some ''HIGH'') = P0"
    and "mapAlertSeverity (Some ''Medium'') = P1"
    and "mapAlertSeverity (Some ''low'') = P2"
    and "mapAlertSeverity (Some ''Sev2'') = P2"
    and "mapAlertSeverity (Some ''warning'') = P3"
    by code_simp+
  with mapAlertSeverity_first_match [of "Some ''HIGH''"] show ?thesis
    by simp
qed

subsection \<open>What a mutation leaves alone\<close>

text \<open>
  C10. On an incident that is in the store each of the three operations succeeds and
  stores the incident with these changes and no other: \<open>assignIncident\<close> sets
  \<open>assignee\<close> and \<open>updatedAt\<close> and appends its event; \<open>updateIncidentStatus\<close>
  sets \<open>status\<close> and \<open>updatedAt\<close>, sets \<open>resolvedAt\<close> or \<open>closedAt\<close> when the
  new status is resolved or closed, and appends its event; \<open>addIncidentComment\<close>
  appends its event and sets \<open>updatedAt\<close>.
\<close>

theorem mutations_change_only_their_fields:
  assumes "getIncident s ident = Some incident"
  shows "assignIncident s ident newAssignee tUpdated eventId tEvent =
           (True, s\<lparr>incidents := Map_set (incidents s) ident
              (incident\<lparr>assignee := Some newAssignee, updatedAt := tUpdated,
                 timeline := timeline incident
                   @ [assignmentEvent eventId ident (assignee incident) newAssignee tEvent]\<rparr>)\<rparr>)
     \<and> updateIncidentStatus s ident newStatus user tUpdated tStamp eventId tEvent =
           (True, s\<lparr>incidents := Map_set (incidents s) ident
              (incident\<lparr>status := newStatus, updatedAt := tUpdated,
                 resolvedAt := (if newStatus = Resolved then Some tStamp else resolvedAt incident),
                 closedAt := (if newStatus = Closed then Some tStamp else closedAt incident),
                 timeline := timeline incident
                   @ [statusEvent eventId ident (status incident) newStatus user tEvent]\<rparr>)\<rparr>)
     \<and> addIncidentComment s ident msg commenter eventId tEvent tUpdated =
           (True, s\<lparr>incidents := Map_set (incidents s) ident
              (incident\<lparr>timeline := timeline incident
                   @ [commentEvent eventId ident msg commenter tEvent],
                 updatedAt := tUpdated\<rparr>)\<rparr>)"
  using assign_present[OF assms] status_present[OF assms] comment_present[OF assms]
  by simp

theorem mutations_change_only_their_fields_witness:
  "(\<exists>incident. getIncident demoStore ''INC-1'' = Some incident
      \<and> fst (assignIncident demoStore ''INC-1'' ''U1'' 1000 ''EVT-2'' 1000)
      \<and> getIncident (snd (assignIncident demoStore ''INC-1'' ''U1'' 1000 ''EVT-2'' 1000)) ''INC-1''
          = Some (incident\<lparr>assignee := Some ''U1'', updatedAt := 1000,
              timeline := timeline incident
                @ [assignmentEvent ''EVT-2'' ''INC-1'' None ''U1'' 1000]\<rparr>))"
proof -
  obtain incident where i: "getIncident demoStore ''INC-1'' = Some incident"
    and a: "assignee incident = None"
    by (simp add: demoStore_def createIncident_def demoRequest_def Let_def getIncident_store)
  from mutations_change_only_their_fields [OF i, of "''U1''" 1000 "''EVT-2''" 1000]
  show ?thesis using i a by (simp add: getIncident_store)
qed

end
